theory Spec2Isabelle
  imports Complex_Main "HOL-Library.AList"
begin

section \<open>JavaScript numbers\<close>

text \<open>
  The scoring code tests \<^verbatim>\<open>Number.isFinite\<close> and \<^verbatim>\<open>Number.isNaN\<close> and writes
  \<^verbatim>\<open>NaN\<close> into its fallback record, so a number is a finite value, one of the two
  infinities, or NaN.  Arithmetic follows the ECMAScript tables for the special
  values.  On finite values the operations of this section are exact: they are what
  a double operation computes, up to rounding, as long as its result stays below the
  overflow threshold.  Overflow to an infinity is added on top of them in the section
  on overflow, and the scoring functions are given there a second time with it.
  Rounding is not modelled, \<^verbatim>\<open>Math.PI\<close> is \<open>pi\<close>, and \<open>-0\<close> is identified with \<open>+0\<close>
  (the sign of zero is observable only through a division by zero, which none of the
  modelled functions performs).
\<close>

datatype number = Fin real | PInf | NInf | NaN

fun isFinite :: "number \<Rightarrow> bool" where
  "isFinite (Fin r) = True"
| "isFinite a = False"

fun isNaN :: "number \<Rightarrow> bool" where
  "isNaN NaN = True"
| "isNaN a = False"

instantiation number :: "{plus, minus, uminus, times, inverse, abs, ord}"
begin

fun uminus_number :: "number \<Rightarrow> number" where
  "- (Fin r) = Fin (- r)"
| "- PInf = NInf"
| "- NInf = PInf"
| "- NaN = NaN"

fun plus_number :: "number \<Rightarrow> number \<Rightarrow> number" where
  "Fin r + Fin s = Fin (r + s)"
| "NaN + b = NaN"
| "a + NaN = NaN"
| "PInf + NInf = NaN"
| "NInf + PInf = NaN"
| "PInf + b = PInf"
| "a + PInf = PInf"
| "NInf + b = NInf"
| "a + NInf = NInf"

definition minus_number :: "number \<Rightarrow> number \<Rightarrow> number" where
  "a - b = a + (- b)" for a b :: number

fun times_number :: "number \<Rightarrow> number \<Rightarrow> number" where
  "Fin r * Fin s = Fin (r * s)"
| "NaN * b = NaN"
| "a * NaN = NaN"
| "Fin r * PInf = (if r = 0 then NaN else if 0 < r then PInf else NInf)"
| "Fin r * NInf = (if r = 0 then NaN else if 0 < r then NInf else PInf)"
| "PInf * Fin s = (if s = 0 then NaN else if 0 < s then PInf else NInf)"
| "NInf * Fin s = (if s = 0 then NaN else if 0 < s then NInf else PInf)"
| "PInf * PInf = PInf"
| "PInf * NInf = NInf"
| "NInf * PInf = NInf"
| "NInf * NInf = PInf"

fun divide_number :: "number \<Rightarrow> number \<Rightarrow> number" where
  "divide_number (Fin r) (Fin s) =
     (if s = 0 then (if r = 0 then NaN else if 0 < r then PInf else NInf)
      else Fin (r / s))"
| "divide_number NaN b = NaN"
| "divide_number a NaN = NaN"
| "divide_number (Fin r) PInf = Fin 0"
| "divide_number (Fin r) NInf = Fin 0"
| "divide_number PInf (Fin s) = (if 0 \<le> s then PInf else NInf)"
| "divide_number NInf (Fin s) = (if 0 \<le> s then NInf else PInf)"
| "divide_number PInf b = NaN"
| "divide_number NInf b = NaN"

definition inverse_number :: "number \<Rightarrow> number" where
  "inverse_number a = divide (Fin 1) a"

fun abs_number :: "number \<Rightarrow> number" where
  "\<bar>Fin r\<bar> = Fin \<bar>r\<bar>"
| "\<bar>PInf\<bar> = PInf"
| "\<bar>NInf\<bar> = PInf"
| "\<bar>NaN\<bar> = NaN"

fun less_number :: "number \<Rightarrow> number \<Rightarrow> bool" where
  "Fin r < Fin s \<longleftrightarrow> r < s"
| "NaN < b \<longleftrightarrow> False"
| "a < NaN \<longleftrightarrow> False"
| "PInf < b \<longleftrightarrow> False"
| "a < NInf \<longleftrightarrow> False"
| "a < PInf \<longleftrightarrow> True"
| "NInf < b \<longleftrightarrow> True"

fun less_eq_number :: "number \<Rightarrow> number \<Rightarrow> bool" where
  "Fin r \<le> Fin s \<longleftrightarrow> r \<le> s"
| "NaN \<le> b \<longleftrightarrow> False"
| "a \<le> NaN \<longleftrightarrow> False"
| "a \<le> PInf \<longleftrightarrow> True"
| "NInf \<le> b \<longleftrightarrow> True"
| "PInf \<le> b \<longleftrightarrow> False"
| "a \<le> NInf \<longleftrightarrow> False"

instance ..

end

text \<open>\<^verbatim>\<open>Math.sqrt\<close>, \<^verbatim>\<open>Math.hypot\<close> and \<^verbatim>\<open>Math.atan2\<close>.\<close>

fun msqrt :: "number \<Rightarrow> number" where
  "msqrt (Fin r) = (if r < 0 then NaN else Fin (sqrt r))"
| "msqrt PInf = PInf"
| "msqrt NInf = NaN"
| "msqrt NaN = NaN"

fun hypot :: "number \<Rightarrow> number \<Rightarrow> number" where
  "hypot (Fin r) (Fin s) = Fin (sqrt (r * r + s * s))"
| "hypot PInf b = PInf"
| "hypot NInf b = PInf"
| "hypot a PInf = PInf"
| "hypot a NInf = PInf"
| "hypot a b = NaN"

definition ratan2 :: "real \<Rightarrow> real \<Rightarrow> real" where
  "ratan2 b a =
     (if 0 < a then arctan (b / a)
      else if a < 0 then (if 0 \<le> b then arctan (b / a) + pi else arctan (b / a) - pi)
      else if 0 < b then pi / 2
      else if b < 0 then - (pi / 2)
      else 0)"

fun atan2 :: "number \<Rightarrow> number \<Rightarrow> number" where
  "atan2 (Fin b) (Fin a) = Fin (ratan2 b a)"
| "atan2 NaN a = NaN"
| "atan2 b NaN = NaN"
| "atan2 PInf (Fin a) = Fin (pi / 2)"
| "atan2 NInf (Fin a) = Fin (- (pi / 2))"
| "atan2 (Fin b) PInf = Fin 0"
| "atan2 (Fin b) NInf = (if 0 \<le> b then Fin pi else Fin (- pi))"
| "atan2 PInf PInf = Fin (pi / 4)"
| "atan2 PInf NInf = Fin (3 * pi / 4)"
| "atan2 NInf PInf = Fin (- (pi / 4))"
| "atan2 NInf NInf = Fin (- (3 * pi / 4))"

definition PI :: number where
  "PI = Fin pi"

section \<open>Posture metrics\<close>

subsection \<open>Types\<close>

record Landmark =
  x :: number
  y :: number
  z :: number
  visibility :: "number option"

text \<open>
  A pose is a JavaScript object keyed by landmark index: an association list whose
  keys are pairwise distinct, read with \<open>map_of\<close>.  A missing key reads as
  \<^verbatim>\<open>undefined\<close>, here \<open>None\<close>.
\<close>

type_synonym PoseLandmarks = "(nat \<times> Landmark) list"

text \<open>The anonymous object type \<^verbatim>\<open>{ x; y; z; v }\<close> of the two shoulder snapshots.\<close>

record Snapshot =
  sx :: number
  sy :: number
  sz :: number
  v :: number

record HorizontalScoreDebug =
  score :: number
  angleDeg :: number
  dx :: number
  dz :: number
  visSym :: number
  left :: Snapshot
  right :: Snapshot

text \<open>Reading a property of \<^verbatim>\<open>undefined\<close> throws.\<close>

datatype error = TypeError

subsection \<open>Helpers and constants\<close>

definition L_SHOULDER :: nat where
  "L_SHOULDER = 11"

definition R_SHOULDER :: nat where
  "R_SHOULDER = 12"

definition VIS_THRESHOLD :: number where
  "VIS_THRESHOLD = Fin (3 / 10)"

definition EPSILON :: number where
  "EPSILON = Fin (1 / 1000000)"

text \<open>The operator \<^verbatim>\<open>??\<close> on an optional field.\<close>

fun nullish :: "'a option \<Rightarrow> 'a \<Rightarrow> 'a" where
  "nullish None d = d"
| "nullish (Some a) d = a"

fun isVisible :: "Landmark option \<Rightarrow> bool" where
  "isVisible None = False"
| "isVisible (Some l) \<longleftrightarrow> VIS_THRESHOLD < nullish (visibility l) (Fin 1)"

subsection \<open>Metric 1: horizontalScore\<close>

definition blank :: HorizontalScoreDebug where
  "blank =
     \<lparr> score = Fin 0, angleDeg = Fin 90, dx = Fin 0, dz = Fin 0, visSym = Fin 0,
       left = \<lparr> sx = NaN, sy = NaN, sz = NaN, v = Fin 0 \<rparr>,
       right = \<lparr> sx = NaN, sy = NaN, sz = NaN, v = Fin 0 \<rparr> \<rparr>"

text \<open>
  After the visibility guard the source reads \<^verbatim>\<open>ls.z\<close>, \<^verbatim>\<open>rs.z\<close> and the other
  fields directly; such a read throws when the landmark is \<^verbatim>\<open>undefined\<close>.  The
  model raises \<open>TypeError\<close> whenever either landmark is missing at that point, which
  covers every read the source can reach.
\<close>

definition horizontalScoreDetailed :: "PoseLandmarks \<Rightarrow> error + HorizontalScoreDebug" where
  "horizontalScoreDetailed lm =
     (let ls = map_of lm L_SHOULDER;
          rs = map_of lm R_SHOULDER
      in if \<not> isVisible ls \<or> \<not> isVisible rs then Inr blank
         else case (ls, rs) of
           (Some l, Some r) \<Rightarrow>
             if \<not> isFinite (z l) \<or> \<not> isFinite (z r) then Inr blank
             else
               let dx = x l - x r;
                   dz = z l - z r;
                   len = hypot dx dz
               in if len < EPSILON then Inr blank
                  else
                    let absDx = \<bar>dx\<bar>;
                        absDz = \<bar>dz\<bar>;
                        geom = absDx / len;
                        visSym = Fin 1 - \<bar>nullish (visibility l) (Fin 1) - nullish (visibility r) (Fin 1)\<bar>;
                        angle = atan2 absDz absDx * Fin 180 / PI
                    in Inr \<lparr> score = geom * visSym,
                             angleDeg = angle,
                             dx = absDx,
                             dz = absDz,
                             visSym = visSym,
                             left = \<lparr> sx = x l, sy = y l, sz = z l, v = nullish (visibility l) (Fin 0) \<rparr>,
                             right = \<lparr> sx = x r, sy = y r, sz = z r, v = nullish (visibility r) (Fin 0) \<rparr> \<rparr>
         | _ \<Rightarrow> Inl TypeError)"

definition horizontalScore :: "PoseLandmarks \<Rightarrow> error + number" where
  "horizontalScore lm =
     (case horizontalScoreDetailed lm of Inl e \<Rightarrow> Inl e | Inr d \<Rightarrow> Inr (score d))"

subsection \<open>Metric 2: shoulderTiltScore\<close>

definition shoulderTiltScore :: "PoseLandmarks \<Rightarrow> error + number" where
  "shoulderTiltScore lm =
     (let ls = map_of lm L_SHOULDER;
          rs = map_of lm R_SHOULDER
      in if \<not> isVisible ls \<or> \<not> isVisible rs then Inr (Fin 0)
         else case (ls, rs) of
           (Some l, Some r) \<Rightarrow>
             let dx = x l - x r;
                 dy = y l - y r
             in if \<bar>dx\<bar> < EPSILON \<and> \<bar>dy\<bar> < EPSILON then Inr (Fin 0)
                else
                  let angle = atan2 \<bar>dy\<bar> \<bar>dx\<bar>
                  in Inr (Fin 1 - angle / (PI / Fin 2))
         | _ \<Rightarrow> Inl TypeError)"

subsection \<open>Combined metric and convenience wrapper\<close>

definition shoulderSquareness :: "PoseLandmarks \<Rightarrow> error + number" where
  "shoulderSquareness lm =
     (case horizontalScore lm of
        Inl e \<Rightarrow> Inl e
      | Inr sYaw \<Rightarrow>
          (case shoulderTiltScore lm of
             Inl e \<Rightarrow> Inl e
           | Inr sRoll \<Rightarrow>
               let q = msqrt (sYaw * sRoll)
               in Inr (if isNaN q then Fin 0 else q)))"

text \<open>
  The returned object literal has two properties; the third is commented out in the
  source.  It is an association list in property order.
\<close>

definition computeAllMetrics :: "PoseLandmarks \<Rightarrow> error + (string \<times> number) list" where
  "computeAllMetrics lm =
     (case horizontalScore lm of
        Inl e \<Rightarrow> Inl e
      | Inr sYaw \<Rightarrow>
          (case shoulderTiltScore lm of
             Inl e \<Rightarrow> Inl e
           | Inr sRoll \<Rightarrow>
               let q = msqrt (sYaw * sRoll)
               in Inr [(''horizontalScore'', sYaw), (''shoulderTiltScore'', sRoll)]))"

section \<open>Camera loop: landmark smoothing and score buffer\<close>

text \<open>
  Both blocks live inline in \<^verbatim>\<open>renderLoop\<close> and mutate the two refs of the
  component; here each takes the current value of its ref and returns the new one.
  The pose source builds a fresh object for every frame, so the landmark objects of
  a new frame are not shared with the smoothed state and mutation in place is
  modelled by value.
\<close>

subsection \<open>Landmark smoothing (EMA on x/y/z)\<close>

definition SMOOTH_ALPHA :: number where
  "SMOOTH_ALPHA = Fin (2 / 10)"

text \<open>
  The three assignments to \<^verbatim>\<open>s.x\<close>, \<^verbatim>\<open>s.y\<close>, \<^verbatim>\<open>s.z\<close>; no other field of
  \<^verbatim>\<open>s\<close> is written.
\<close>

definition smoothLandmark :: "Landmark \<Rightarrow> Landmark \<Rightarrow> Landmark" where
  "smoothLandmark p s =
     (let s1 = s\<lparr> x := SMOOTH_ALPHA * x p + (Fin 1 - SMOOTH_ALPHA) * x s \<rparr>;
          s2 = s1\<lparr> y := SMOOTH_ALPHA * y p + (Fin 1 - SMOOTH_ALPHA) * y s1 \<rparr>;
          s3 = s2\<lparr> z := SMOOTH_ALPHA * z p + (Fin 1 - SMOOTH_ALPHA) * z s2 \<rparr>
      in s3)"

text \<open>One iteration of \<^verbatim>\<open>for (const idx in pose)\<close>, on the entry \<open>(idx, pose[idx])\<close>.\<close>

definition smoothEntry :: "nat \<times> Landmark \<Rightarrow> PoseLandmarks \<Rightarrow> PoseLandmarks" where
  "smoothEntry e cur =
     (case e of (idx, p) \<Rightarrow>
        let s = nullish (map_of cur idx) p
        in AList.update idx (smoothLandmark p s) cur)"

text \<open>
  The smoothing block for one detected pose.  \<open>None\<close> is the initial \<^verbatim>\<open>null\<close> of
  \<^verbatim>\<open>smoothedPoseRef\<close>; the result is the new content of the ref, which is also the
  \<^verbatim>\<open>smoothedPose\<close> handed to the metrics.
\<close>

definition smoothUpdate :: "PoseLandmarks option \<Rightarrow> PoseLandmarks \<Rightarrow> PoseLandmarks" where
  "smoothUpdate cur pose =
     (case cur of
        None \<Rightarrow> pose
      | Some st \<Rightarrow> fold smoothEntry pose st)"

text \<open>
  A run of frames; \<open>None\<close> is a frame with no detection (\<^verbatim>\<open>if (pose)\<close> fails), which
  leaves the ref untouched.
\<close>

fun feedFrames :: "PoseLandmarks option \<Rightarrow> PoseLandmarks option list \<Rightarrow> PoseLandmarks option" where
  "feedFrames cur [] = cur"
| "feedFrames cur (None # frames) = feedFrames cur frames"
| "feedFrames cur (Some pose # frames) = feedFrames (Some (smoothUpdate cur pose)) frames"

subsection \<open>Score buffer\<close>

type_synonym Buffer = "(string \<times> number list) list"

definition BUFFER_SIZE :: nat where
  "BUFFER_SIZE = 30"

text \<open>
  One iteration of the loop over \<^verbatim>\<open>Object.entries(raw)\<close>: create the array if
  missing, \<^verbatim>\<open>push\<close>, then \<^verbatim>\<open>shift\<close> when the length exceeds \<open>BUFFER_SIZE\<close>.
\<close>

definition observe :: "string \<times> number \<Rightarrow> Buffer \<Rightarrow> Buffer" where
  "observe e buffer =
     (case e of (k, val) \<Rightarrow>
        let arr = nullish (map_of buffer k) [];
            arr1 = arr @ [val];
            arr2 = (if BUFFER_SIZE < length arr1 then tl arr1 else arr1)
        in AList.update k arr2 buffer)"

text \<open>\<^verbatim>\<open>arr.reduce((a, b) => a + b, 0) / arr.length\<close>\<close>

definition mean :: "number list \<Rightarrow> number" where
  "mean arr = foldl (+) (Fin 0) arr / Fin (real (length arr))"

definition avgScores :: "Buffer \<Rightarrow> (string \<times> number) list" where
  "avgScores buffer = map (\<lambda>(k, arr). (k, mean arr)) buffer"

section \<open>Inputs and input conditions used below\<close>



definition landmark :: "real \<Rightarrow> real \<Rightarrow> real \<Rightarrow> real \<Rightarrow> Landmark" where
  "landmark a b c w = \<lparr> x = Fin a, y = Fin b, z = Fin c, visibility = Some (Fin w) \<rparr>"

text \<open>Square-on shoulders: \<open>L = (0.4, 0.5, 0, v = 1)\<close>, \<open>R = (0.6, 0.5, 0, v = 1)\<close>.\<close>

definition frontalPose :: PoseLandmarks where
  "frontalPose = [(11, landmark (4 / 10) (5 / 10) 0 1), (12, landmark (6 / 10) (5 / 10) 0 1)]"

text \<open>
  A vertical shoulder line: equal \<open>x\<close> and \<open>z\<close>, different \<open>y\<close>.  The shoulders
  coincide in the X-Z plane.
\<close>

definition verticalPose :: PoseLandmarks where
  "verticalPose = [(11, landmark (5 / 10) (4 / 10) 0 1), (12, landmark (5 / 10) (6 / 10) 0 1)]"

text \<open>A shoulder line at 45 degrees in the image plane.\<close>

definition diagonalPose :: PoseLandmarks where
  "diagonalPose = [(11, landmark (4 / 10) (4 / 10) 0 1), (12, landmark (6 / 10) (6 / 10) 0 1)]"

text \<open>
  A subject turned away from the camera, the right shoulder further back and less
  confidently detected: X gap 0.3, depth gap 0.4, visibilities 1 and 0.8; and the
  same pose with the two shoulders exchanged.
\<close>

definition turnedPose :: PoseLandmarks where
  "turnedPose = [(11, landmark (4 / 10) (5 / 10) 0 1), (12, landmark (7 / 10) (5 / 10) (4 / 10) (8 / 10))]"

definition turnedPoseSwapped :: PoseLandmarks where
  "turnedPoseSwapped = [(11, landmark (7 / 10) (5 / 10) (4 / 10) (8 / 10)), (12, landmark (4 / 10) (5 / 10) 0 1)]"

text \<open>The frontal pose with a nose landmark in front and an unrelated key behind.\<close>

definition frontalPoseWithFace :: PoseLandmarks where
  "frontalPoseWithFace =
     (0, landmark (5 / 10) (2 / 10) (- 3 / 10) (9 / 10)) # frontalPose @ [(5, landmark 7 7 7 0)]"

text \<open>Poses whose left shoulder is, in turn, missing, barely visible, and without depth.\<close>

definition noLeftPose :: PoseLandmarks where
  "noLeftPose = [(12, landmark (6 / 10) (5 / 10) 0 1)]"

definition dimLeftPose :: PoseLandmarks where
  "dimLeftPose = [(11, landmark (4 / 10) (5 / 10) 0 (3 / 10)), (12, landmark (6 / 10) (5 / 10) 0 1)]"

definition noDepthPose :: PoseLandmarks where
  "noDepthPose =
     [(11, \<lparr> x = Fin (4 / 10), y = Fin (5 / 10), z = NaN, visibility = None \<rparr>),
      (12, landmark (6 / 10) (5 / 10) 0 1)]"

text \<open>
  Two camera frames for the smoother: the left shoulder is seen clearly in the first
  and reported as occluded, at another place, in the second.
\<close>

definition frameA :: PoseLandmarks where
  "frameA = [(11, landmark 0 0 0 1), (12, landmark 1 0 0 1)]"

definition frameB :: PoseLandmarks where
  "frameB = [(11, landmark 1 1 1 (1 / 10))]"

text \<open>A frame in which the detector returned the right shoulder only.\<close>

definition frameC :: PoseLandmarks where
  "frameC = [(12, landmark 1 1 1 1)]"

text \<open>Forty distinct scores \<open>1, 2, \<dots>, 40\<close> for one metric.\<close>

definition fortySamples :: "number list" where
  "fortySamples = map (\<lambda>n. Fin (real n)) [1..<41]"

text \<open>
  The score entries of forty frames in the order the loop sees them: each frame
  contributes its \<open>horizontalScore\<close> and then its \<open>shoulderTiltScore\<close>.
\<close>

definition fortyFrames :: "(string \<times> number) list" where
  "fortyFrames =
     concat (map (\<lambda>val. [(''horizontalScore'', val), (''shoulderTiltScore'', Fin 0)]) fortySamples)"

section \<open>Overflow\<close>












section \<open>Facts about numbers\<close>

lemmas pose_defs = frontalPose_def verticalPose_def
  diagonalPose_def turnedPose_def turnedPoseSwapped_def
  frontalPoseWithFace_def noLeftPose_def dimLeftPose_def noDepthPose_def landmark_def
  L_SHOULDER_def R_SHOULDER_def

lemma number_neg_sub: "b - a = - (a - b)" for a b :: number
  by (cases a; cases b) (simp_all add: minus_number_def)

lemma number_abs_sub_swap: "\<bar>b - a\<bar> = \<bar>a - b\<bar>" for a b :: number
  by (cases a; cases b) (simp_all add: minus_number_def)

lemma number_eq_sub: "isFinite a \<Longrightarrow> a - a = Fin 0" for a :: number
  by (cases a) (simp_all add: minus_number_def)

lemma number_sub_finite: "isFinite a \<Longrightarrow> isFinite b \<Longrightarrow> isFinite (a - b)" for a b :: number
  by (cases a; cases b) (simp_all add: minus_number_def)

lemma number_abs_nonneg: "isFinite a \<Longrightarrow> Fin 0 \<le> \<bar>a\<bar>"
  by (cases a) simp_all

lemma number_le_not_less: "a \<le> b \<Longrightarrow> \<not> b < a" for a b :: number
  by (cases a; cases b) simp_all

lemma hypot_neg: "hypot (- a) (- b) = hypot a b"
  by (cases a; cases b) simp_all

lemma hypot_sub_swap: "hypot (b - a) (d - c) = hypot (a - b) (c - d)"
  using hypot_neg [of "a - b" "c - d"] number_neg_sub [of b a] number_neg_sub [of d c] by simp

lemma hypot_Fin_0: "hypot (Fin r) (Fin 0) = Fin \<bar>r\<bar>"
  by simp

lemma hypot_3_4: "hypot (Fin (- (3 / 10))) (Fin (- (2 / 5))) = Fin (1 / 2)"
proof -
  have "(- (3 / 10)) * (- (3 / 10)) + (- (2 / 5)) * (- (2 / 5)) = (1 / 2) * (1 / 2 :: real)"
    by simp
  then have "sqrt ((- (3 / 10)) * (- (3 / 10)) + (- (2 / 5)) * (- (2 / 5))) = sqrt ((1 / 2) * (1 / 2 :: real))"
    by (simp only:)
  also have "\<dots> = \<bar>1 / 2 :: real\<bar>"
    by (rule real_sqrt_abs2)
  finally show ?thesis by (simp del: real_sqrt_abs2)
qed



section \<open>The scoring functions never throw\<close>

lemma horizontalScoreDetailed_total: "\<exists>d. horizontalScoreDetailed lm = Inr d"
  by (cases "map_of lm L_SHOULDER"; cases "map_of lm R_SHOULDER")
     (simp_all add: horizontalScoreDetailed_def Let_def)

lemma shoulderTiltScore_total: "\<exists>s. shoulderTiltScore lm = Inr s"
  by (cases "map_of lm L_SHOULDER"; cases "map_of lm R_SHOULDER")
     (simp_all add: shoulderTiltScore_def Let_def)

section \<open>The branches of the two metrics\<close>

lemma hsd_regular:
  assumes "map_of lm L_SHOULDER = Some l" and "map_of lm R_SHOULDER = Some r"
    and "isVisible (Some l)" and "isVisible (Some r)"
    and "isFinite (z l)" and "isFinite (z r)"
    and "\<not> hypot (x l - x r) (z l - z r) < EPSILON"
  shows "horizontalScoreDetailed lm = Inr
     \<lparr> score = \<bar>x l - x r\<bar> / hypot (x l - x r) (z l - z r)
                * (Fin 1 - \<bar>nullish (visibility l) (Fin 1) - nullish (visibility r) (Fin 1)\<bar>),
       angleDeg = atan2 \<bar>z l - z r\<bar> \<bar>x l - x r\<bar> * Fin 180 / PI,
       dx = \<bar>x l - x r\<bar>,
       dz = \<bar>z l - z r\<bar>,
       visSym = Fin 1 - \<bar>nullish (visibility l) (Fin 1) - nullish (visibility r) (Fin 1)\<bar>,
       left = \<lparr> sx = x l, sy = y l, sz = z l, v = nullish (visibility l) (Fin 0) \<rparr>,
       right = \<lparr> sx = x r, sy = y r, sz = z r, v = nullish (visibility r) (Fin 0) \<rparr> \<rparr>"
  using assms by (simp add: horizontalScoreDetailed_def Let_def)

lemma hsd_blank_invisible:
  assumes "\<not> isVisible (map_of lm L_SHOULDER) \<or> \<not> isVisible (map_of lm R_SHOULDER)"
  shows "horizontalScoreDetailed lm = Inr blank"
  using assms by (auto simp add: horizontalScoreDetailed_def Let_def)

lemma hsd_blank_depth:
  assumes "map_of lm L_SHOULDER = Some l" and "map_of lm R_SHOULDER = Some r"
    and "\<not> isFinite (z l) \<or> \<not> isFinite (z r)"
  shows "horizontalScoreDetailed lm = Inr blank"
  using assms by (auto simp add: horizontalScoreDetailed_def Let_def)

lemma hsd_blank_coincident:
  assumes "map_of lm L_SHOULDER = Some l" and "map_of lm R_SHOULDER = Some r"
    and "hypot (x l - x r) (z l - z r) < EPSILON"
  shows "horizontalScoreDetailed lm = Inr blank"
  using assms by (auto simp add: horizontalScoreDetailed_def Let_def)

lemma tilt_zero_invisible:
  assumes "\<not> isVisible (map_of lm L_SHOULDER) \<or> \<not> isVisible (map_of lm R_SHOULDER)"
  shows "shoulderTiltScore lm = Inr (Fin 0)"
  using assms by (auto simp add: shoulderTiltScore_def Let_def)

lemma tilt_zero_coincident:
  assumes "map_of lm L_SHOULDER = Some l" and "map_of lm R_SHOULDER = Some r"
    and "\<bar>x l - x r\<bar> < EPSILON" and "\<bar>y l - y r\<bar> < EPSILON"
  shows "shoulderTiltScore lm = Inr (Fin 0)"
  using assms by (auto simp add: shoulderTiltScore_def Let_def)

lemma tilt_regular:
  assumes "map_of lm L_SHOULDER = Some l" and "map_of lm R_SHOULDER = Some r"
    and "isVisible (Some l)" and "isVisible (Some r)"
    and "\<not> (\<bar>x l - x r\<bar> < EPSILON \<and> \<bar>y l - y r\<bar> < EPSILON)"
  shows "shoulderTiltScore lm = Inr (Fin 1 - atan2 \<bar>y l - y r\<bar> \<bar>x l - x r\<bar> / (PI / Fin 2))"
  using assms by (auto simp add: shoulderTiltScore_def Let_def)

lemma low_visibility_invisible:
  "nullish (visibility l) (Fin 1) \<le> Fin (3 / 10) \<Longrightarrow> \<not> isVisible (Some l)"
  by (simp add: VIS_THRESHOLD_def number_le_not_less)

text \<open>Evaluation of the metrics on concrete poses.\<close>

lemmas eval_simps = horizontalScoreDetailed_def shoulderTiltScore_def horizontalScore_def
  shoulderSquareness_def computeAllMetrics_def pose_defs
  VIS_THRESHOLD_def EPSILON_def PI_def minus_number_def ratan2_def Let_def
  hypot_Fin_0 hypot_3_4 blank_def

section \<open>Scores lie in the unit interval\<close>

























section \<open>Degenerate input gives the blank record\<close>

text \<open>
  Claim C2.  Whenever landmark 11 or 12 is absent, or has visibility at most 0.3, or
  either shoulder's depth is not finite, or the two shoulders are less than 1e-6
  apart in the X-Z plane, \<open>horizontalScoreDetailed\<close> returns normally, and what it
  returns is exactly the blank record: score 0, angle 90, dx 0, dz 0, visSym 0, and
  both snapshots \<open>(NaN, NaN, NaN, 0)\<close>.
\<close>

theorem horizontalScoreDetailed_blank:
  assumes "map_of lm 11 = None \<or> map_of lm 12 = None
     \<or> (\<exists>l. map_of lm 11 = Some l \<and> nullish (visibility l) (Fin 1) \<le> Fin (3 / 10))
     \<or> (\<exists>r. map_of lm 12 = Some r \<and> nullish (visibility r) (Fin 1) \<le> Fin (3 / 10))
     \<or> (\<exists>l r. map_of lm 11 = Some l \<and> map_of lm 12 = Some r
            \<and> (\<not> isFinite (z l) \<or> \<not> isFinite (z r)))
     \<or> (\<exists>l r. map_of lm 11 = Some l \<and> map_of lm 12 = Some r
            \<and> hypot (x l - x r) (z l - z r) < Fin (1 / 1000000))"
  shows "horizontalScoreDetailed lm =
     Inr \<lparr> score = Fin 0, angleDeg = Fin 90, dx = Fin 0, dz = Fin 0, visSym = Fin 0,
           left = \<lparr> sx = NaN, sy = NaN, sz = NaN, v = Fin 0 \<rparr>,
           right = \<lparr> sx = NaN, sy = NaN, sz = NaN, v = Fin 0 \<rparr> \<rparr>"
proof -
  from assms have "horizontalScoreDetailed lm = Inr blank"
  proof (elim disjE exE conjE)
    assume "map_of lm 11 = None"
    then show ?thesis
      by (intro hsd_blank_invisible) (simp add: L_SHOULDER_def)
  next
    assume "map_of lm 12 = None"
    then show ?thesis
      by (intro hsd_blank_invisible) (simp add: R_SHOULDER_def)
  next
    fix l assume "map_of lm 11 = Some l" "nullish (visibility l) (Fin 1) \<le> Fin (3 / 10)"
    then show ?thesis using low_visibility_invisible [of l]
      by (intro hsd_blank_invisible) (simp add: L_SHOULDER_def)
  next
    fix r assume "map_of lm 12 = Some r" "nullish (visibility r) (Fin 1) \<le> Fin (3 / 10)"
    then show ?thesis using low_visibility_invisible [of r]
      by (intro hsd_blank_invisible) (simp add: R_SHOULDER_def)
  next
    fix l r assume "map_of lm 11 = Some l" "map_of lm 12 = Some r" "\<not> isFinite (z l)"
    then show ?thesis
      by (intro hsd_blank_depth [of lm l r]) (simp_all add: L_SHOULDER_def R_SHOULDER_def)
  next
    fix l r assume "map_of lm 11 = Some l" "map_of lm 12 = Some r" "\<not> isFinite (z r)"
    then show ?thesis
      by (intro hsd_blank_depth [of lm l r]) (simp_all add: L_SHOULDER_def R_SHOULDER_def)
  next
    fix l r assume "map_of lm 11 = Some l" "map_of lm 12 = Some r"
      "hypot (x l - x r) (z l - z r) < Fin (1 / 1000000)"
    then show ?thesis
      by (intro hsd_blank_coincident [of lm l r])
         (simp_all add: L_SHOULDER_def R_SHOULDER_def EPSILON_def)
  qed
  then show ?thesis by (simp add: blank_def)
qed

text \<open>
  The theorem at four inputs, one for each way of being degenerate: left shoulder
  missing, left shoulder at visibility 0.3, left depth NaN, and shoulders that
  coincide in the X-Z plane.
\<close>

theorem horizontalScoreDetailed_blank_witness:
  "horizontalScoreDetailed noLeftPose = Inr blank \<and>
   horizontalScoreDetailed dimLeftPose = Inr blank \<and>
   horizontalScoreDetailed noDepthPose = Inr blank \<and>
   horizontalScoreDetailed verticalPose = Inr blank"
proof -
  have 1: "horizontalScoreDetailed noLeftPose = Inr blank"
    unfolding blank_def by (rule horizontalScoreDetailed_blank) (simp add: pose_defs)
  have 2: "horizontalScoreDetailed dimLeftPose = Inr blank"
    unfolding blank_def by (rule horizontalScoreDetailed_blank) (simp add: pose_defs)
  have 3: "horizontalScoreDetailed noDepthPose = Inr blank"
    unfolding blank_def by (rule horizontalScoreDetailed_blank) (simp add: pose_defs)
  have 4: "horizontalScoreDetailed verticalPose = Inr blank"
    unfolding blank_def
    by (rule horizontalScoreDetailed_blank) (simp add: pose_defs minus_number_def)
  from 1 2 3 4 show ?thesis by simp
qed

section \<open>The values of shoulderTiltScore\<close>

text \<open>
  Claim C5.  \<open>shoulderTiltScore\<close> returns 0 when a shoulder is absent or has
  visibility at most 0.3.  When both shoulders are present with visibility above
  0.3: it returns 0 if both \<open>|Lx - Rx|\<close> and \<open>|Ly - Ry|\<close> are below 1e-6, and
  otherwise \<open>1 - atan2(|Ly - Ry|, |Lx - Rx|) / (\<pi>/2)\<close>; that value is 1 for a
  horizontal shoulder line (equal \<open>y\<close>, \<open>x\<close> at least 1e-6 apart) and the result is
  0 for a vertical one (equal \<open>x\<close>, different \<open>y\<close>).
\<close>

theorem shoulderTiltScore_values:
  "(map_of lm 11 = None \<or> map_of lm 12 = None
      \<or> (\<exists>l. map_of lm 11 = Some l \<and> nullish (visibility l) (Fin 1) \<le> Fin (3 / 10))
      \<or> (\<exists>r. map_of lm 12 = Some r \<and> nullish (visibility r) (Fin 1) \<le> Fin (3 / 10))
    \<longrightarrow> shoulderTiltScore lm = Inr (Fin 0))
   \<and> (\<forall>l r. map_of lm 11 = Some l \<and> map_of lm 12 = Some r
         \<and> Fin (3 / 10) < nullish (visibility l) (Fin 1)
         \<and> Fin (3 / 10) < nullish (visibility r) (Fin 1) \<longrightarrow>
        (\<bar>x l - x r\<bar> < Fin (1 / 1000000) \<and> \<bar>y l - y r\<bar> < Fin (1 / 1000000)
           \<longrightarrow> shoulderTiltScore lm = Inr (Fin 0))
        \<and> (\<not> (\<bar>x l - x r\<bar> < Fin (1 / 1000000) \<and> \<bar>y l - y r\<bar> < Fin (1 / 1000000))
           \<longrightarrow> shoulderTiltScore lm
                 = Inr (Fin 1 - atan2 \<bar>y l - y r\<bar> \<bar>x l - x r\<bar> / (Fin pi / Fin 2)))
        \<and> (isFinite (x l) \<and> isFinite (x r) \<and> isFinite (y l) \<and> y r = y l
             \<and> \<not> \<bar>x l - x r\<bar> < Fin (1 / 1000000)
           \<longrightarrow> shoulderTiltScore lm = Inr (Fin 1))
        \<and> (isFinite (x l) \<and> x r = x l \<and> isFinite (y l) \<and> isFinite (y r) \<and> y l \<noteq> y r
           \<longrightarrow> shoulderTiltScore lm = Inr (Fin 0)))"
proof (intro conjI impI allI)
  assume "map_of lm 11 = None \<or> map_of lm 12 = None
      \<or> (\<exists>l. map_of lm 11 = Some l \<and> nullish (visibility l) (Fin 1) \<le> Fin (3 / 10))
      \<or> (\<exists>r. map_of lm 12 = Some r \<and> nullish (visibility r) (Fin 1) \<le> Fin (3 / 10))"
  then have "\<not> isVisible (map_of lm L_SHOULDER) \<or> \<not> isVisible (map_of lm R_SHOULDER)"
    using low_visibility_invisible by (auto simp add: L_SHOULDER_def R_SHOULDER_def)
  then show "shoulderTiltScore lm = Inr (Fin 0)"
    by (rule tilt_zero_invisible)
next
  fix l r
  assume u: "map_of lm 11 = Some l \<and> map_of lm 12 = Some r
         \<and> Fin (3 / 10) < nullish (visibility l) (Fin 1)
         \<and> Fin (3 / 10) < nullish (visibility r) (Fin 1)"
  then have lr: "map_of lm L_SHOULDER = Some l" "map_of lm R_SHOULDER = Some r"
    and vis: "isVisible (Some l)" "isVisible (Some r)"
    by (simp_all add: L_SHOULDER_def R_SHOULDER_def VIS_THRESHOLD_def)
  {
    assume "\<bar>x l - x r\<bar> < Fin (1 / 1000000) \<and> \<bar>y l - y r\<bar> < Fin (1 / 1000000)"
    then show "shoulderTiltScore lm = Inr (Fin 0)"
      using lr by (intro tilt_zero_coincident [of lm l r]) (simp_all add: EPSILON_def)
  next
    assume "\<not> (\<bar>x l - x r\<bar> < Fin (1 / 1000000) \<and> \<bar>y l - y r\<bar> < Fin (1 / 1000000))"
    then show "shoulderTiltScore lm
                 = Inr (Fin 1 - atan2 \<bar>y l - y r\<bar> \<bar>x l - x r\<bar> / (Fin pi / Fin 2))"
      using tilt_regular [OF lr vis] by (simp add: EPSILON_def PI_def)
  next
    assume h: "isFinite (x l) \<and> isFinite (x r) \<and> isFinite (y l) \<and> y r = y l
             \<and> \<not> \<bar>x l - x r\<bar> < Fin (1 / 1000000)"
    then obtain a1 a2 where a: "x l = Fin a1" "x r = Fin a2"
      by (cases "x l"; cases "x r") simp_all
    from h have dy: "y l - y r = Fin 0" by (simp add: number_eq_sub)
    from h a have big: "\<not> \<bar>a1 - a2\<bar> < 1 / 1000000" by (simp add: minus_number_def)
    have "shoulderTiltScore lm = Inr (Fin 1 - atan2 \<bar>y l - y r\<bar> \<bar>x l - x r\<bar> / (PI / Fin 2))"
      using h by (intro tilt_regular [OF lr vis]) (simp add: EPSILON_def)
    also have "\<dots> = Inr (Fin 1)"
      using big by (simp only: dy) (simp add: a minus_number_def PI_def ratan2_def)
    finally show "shoulderTiltScore lm = Inr (Fin 1)" .
  next
    assume h: "isFinite (x l) \<and> x r = x l \<and> isFinite (y l) \<and> isFinite (y r) \<and> y l \<noteq> y r"
    then obtain b1 b2 where b: "y l = Fin b1" "y r = Fin b2"
      by (cases "y l"; cases "y r") simp_all
    from h have dx: "x l - x r = Fin 0" by (simp add: number_eq_sub)
    from h b have ne: "b1 \<noteq> b2" by simp
    show "shoulderTiltScore lm = Inr (Fin 0)"
    proof (cases "\<bar>x l - x r\<bar> < EPSILON \<and> \<bar>y l - y r\<bar> < EPSILON")
      case True
      then show ?thesis using lr by (intro tilt_zero_coincident [of lm l r]) simp_all
    next
      case False
      have "shoulderTiltScore lm = Inr (Fin 1 - atan2 \<bar>y l - y r\<bar> \<bar>x l - x r\<bar> / (PI / Fin 2))"
        using False by (rule tilt_regular [OF lr vis])
      also have "\<dots> = Inr (Fin 0)"
        using ne by (simp only: dx) (simp add: b minus_number_def PI_def ratan2_def)
      finally show ?thesis .
    qed
  }
qed

text \<open>
  The theorem at a pose without left shoulder, at one whose left shoulder has
  visibility 0.3, at the frontal pose (horizontal line), at the vertical pose and
  at the diagonal pose, where the formula gives \<open>1 - (\<pi>/4) / (\<pi>/2) = 1/2\<close>.
\<close>

theorem shoulderTiltScore_values_witness:
  "shoulderTiltScore noLeftPose = Inr (Fin 0) \<and>
   shoulderTiltScore dimLeftPose = Inr (Fin 0) \<and>
   shoulderTiltScore frontalPose = Inr (Fin 1) \<and>
   shoulderTiltScore verticalPose = Inr (Fin 0) \<and>
   shoulderTiltScore diagonalPose = Inr (Fin (1 / 2))"
proof -
  have 1: "shoulderTiltScore noLeftPose = Inr (Fin 0)"
    using shoulderTiltScore_values [of noLeftPose] by (simp add: pose_defs)
  have 2: "shoulderTiltScore dimLeftPose = Inr (Fin 0)"
    using shoulderTiltScore_values [of dimLeftPose] by (simp add: pose_defs)
  have 3: "shoulderTiltScore frontalPose = Inr (Fin 1)"
    using shoulderTiltScore_values [of frontalPose]
    by (simp add: pose_defs minus_number_def ratan2_def)
  have 4: "shoulderTiltScore verticalPose = Inr (Fin 0)"
    using shoulderTiltScore_values [of verticalPose]
    by (simp add: pose_defs minus_number_def ratan2_def)
  have 5: "shoulderTiltScore diagonalPose = Inr (Fin (1 / 2))"
    using shoulderTiltScore_values [of diagonalPose]
    by (simp add: pose_defs minus_number_def ratan2_def arctan_one)
  from 1 2 3 4 5 show ?thesis by simp
qed

section \<open>The convenience wrapper\<close>

text \<open>
  Claim C7.  For every pose, \<open>computeAllMetrics\<close> returns normally an object with
  exactly two properties, \<open>horizontalScore\<close> and \<open>shoulderTiltScore\<close> in this order
  and no combined score; their values are what \<open>horizontalScore\<close> and
  \<open>shoulderTiltScore\<close> return, and \<open>horizontalScore\<close> returns the \<open>score\<close> field of
  \<open>horizontalScoreDetailed\<close>.
\<close>

theorem computeAllMetrics_two_scores:
  "\<exists>d t. horizontalScoreDetailed lm = Inr d \<and> shoulderTiltScore lm = Inr t \<and>
     horizontalScore lm = Inr (score d) \<and>
     computeAllMetrics lm = Inr [(''horizontalScore'', score d), (''shoulderTiltScore'', t)]"
proof -
  obtain d where d: "horizontalScoreDetailed lm = Inr d"
    using horizontalScoreDetailed_total by blast
  obtain t where t: "shoulderTiltScore lm = Inr t"
    using shoulderTiltScore_total by blast
  have h: "horizontalScore lm = Inr (score d)"
    by (simp add: horizontalScore_def d)
  have "computeAllMetrics lm = Inr [(''horizontalScore'', score d), (''shoulderTiltScore'', t)]"
    by (simp add: computeAllMetrics_def h t Let_def)
  with d t h show ?thesis by blast
qed

text \<open>The theorem at the turned pose.\<close>

theorem computeAllMetrics_two_scores_witness:
  "computeAllMetrics turnedPose
     = Inr [(''horizontalScore'', Fin (12 / 25)), (''shoulderTiltScore'', Fin 1)] \<and>
   map_sum id (map fst) (computeAllMetrics turnedPose)
     = Inr [''horizontalScore'', ''shoulderTiltScore'']"
proof -
  obtain d :: HorizontalScoreDebug and t
    where *: "horizontalScore turnedPose = Inr (score d)"
      "shoulderTiltScore turnedPose = Inr t"
      "computeAllMetrics turnedPose
         = Inr [(''horizontalScore'', score d), (''shoulderTiltScore'', t)]"
    using computeAllMetrics_two_scores [of turnedPose] by blast
  have "horizontalScore turnedPose = Inr (Fin (12 / 25))"
    by (simp add: eval_simps del: hypot.simps(1))
  with * have "score d = Fin (12 / 25)" by simp
  moreover have "shoulderTiltScore turnedPose = Inr (Fin 1)"
    by (simp add: eval_simps)
  with * have "t = Fin 1" by simp
  ultimately show ?thesis using * by simp
qed

section \<open>The gaps reported by horizontalScoreDetailed\<close>

text \<open>
  Claim C8 says that the \<open>dx\<close> and \<open>dz\<close> fields are the signed differences
  \<open>Lx - Rx\<close> and \<open>Lz - Rz\<close>.  At the frontal pose, where both shoulders are usable,
  both depths are finite and the shoulders are 0.2 apart, \<open>Lx - Rx\<close> is \<open>-0.2\<close> and
  the \<open>dx\<close> field is \<open>0.2\<close>.
\<close>

theorem horizontalScoreDetailed_dx_not_signed:
  "map_of frontalPose 11 = Some (landmark (4 / 10) (5 / 10) 0 1) \<and>
   map_of frontalPose 12 = Some (landmark (6 / 10) (5 / 10) 0 1) \<and>
   isVisible (map_of frontalPose 11) \<and> isVisible (map_of frontalPose 12) \<and>
   isFinite (z (landmark (4 / 10) (5 / 10) 0 1)) \<and>
   isFinite (z (landmark (6 / 10) (5 / 10) 0 1)) \<and>
   EPSILON \<le> hypot (x (landmark (4 / 10) (5 / 10) 0 1) - x (landmark (6 / 10) (5 / 10) 0 1))
                     (z (landmark (4 / 10) (5 / 10) 0 1) - z (landmark (6 / 10) (5 / 10) 0 1)) \<and>
   map_sum id dx (horizontalScoreDetailed frontalPose) = Inr (Fin (2 / 10)) \<and>
   x (landmark (4 / 10) (5 / 10) 0 1) - x (landmark (6 / 10) (5 / 10) 0 1) = Fin (- 2 / 10) \<and>
   map_sum id dx (horizontalScoreDetailed frontalPose)
     \<noteq> Inr (x (landmark (4 / 10) (5 / 10) 0 1) - x (landmark (6 / 10) (5 / 10) 0 1))"
  by (simp add: eval_simps del: hypot.simps(1))

text \<open>
  Claim C8, amended.  When both shoulders are present with visibility above 0.3,
  both depths are finite and \<open>hypot(Lx - Rx, Lz - Rz)\<close> is at least 1e-6,
  \<open>horizontalScoreDetailed\<close> returns a record whose \<open>dx\<close> and \<open>dz\<close> fields are the
  absolute differences \<open>|Lx - Rx|\<close> and \<open>|Lz - Rz|\<close> (so never negative for finite
  coordinates), whose \<open>visSym\<close> is \<open>1 - |vL - vR|\<close>, and whose \<open>score\<close> is
  \<open>(dx / len) \<cdot> visSym\<close>.
\<close>

theorem horizontalScoreDetailed_abs_gaps:
  assumes "map_of lm 11 = Some l" and "map_of lm 12 = Some r"
    and "Fin (3 / 10) < nullish (visibility l) (Fin 1)"
    and "Fin (3 / 10) < nullish (visibility r) (Fin 1)"
    and "isFinite (z l)" and "isFinite (z r)"
    and "Fin (1 / 1000000) \<le> hypot (x l - x r) (z l - z r)"
  shows "\<exists>d. horizontalScoreDetailed lm = Inr d \<and>
           dx d = \<bar>x l - x r\<bar> \<and> dz d = \<bar>z l - z r\<bar> \<and>
           visSym d = Fin 1 - \<bar>nullish (visibility l) (Fin 1) - nullish (visibility r) (Fin 1)\<bar> \<and>
           score d = dx d / hypot (x l - x r) (z l - z r) * visSym d \<and>
           Fin 0 \<le> dz d \<and> (isFinite (x l) \<and> isFinite (x r) \<longrightarrow> Fin 0 \<le> dx d)"
proof -
  have "\<not> hypot (x l - x r) (z l - z r) < EPSILON"
    using assms(7) by (simp add: EPSILON_def number_le_not_less)
  with assms have "horizontalScoreDetailed lm = Inr
     \<lparr> score = \<bar>x l - x r\<bar> / hypot (x l - x r) (z l - z r)
                * (Fin 1 - \<bar>nullish (visibility l) (Fin 1) - nullish (visibility r) (Fin 1)\<bar>),
       angleDeg = atan2 \<bar>z l - z r\<bar> \<bar>x l - x r\<bar> * Fin 180 / PI,
       dx = \<bar>x l - x r\<bar>,
       dz = \<bar>z l - z r\<bar>,
       visSym = Fin 1 - \<bar>nullish (visibility l) (Fin 1) - nullish (visibility r) (Fin 1)\<bar>,
       left = \<lparr> sx = x l, sy = y l, sz = z l, v = nullish (visibility l) (Fin 0) \<rparr>,
       right = \<lparr> sx = x r, sy = y r, sz = z r, v = nullish (visibility r) (Fin 0) \<rparr> \<rparr>"
    by (intro hsd_regular) (simp_all add: L_SHOULDER_def R_SHOULDER_def VIS_THRESHOLD_def)
  then show ?thesis
    using number_abs_nonneg [OF number_sub_finite [OF assms(5,6)]]
      number_abs_nonneg [of "x l - x r"] number_sub_finite [of "x l" "x r"]
    by simp
qed

text \<open>
  The amended statement at the turned pose: gaps 0.3 and 0.4, length 0.5, symmetry
  0.8, score 0.48.
\<close>

theorem horizontalScoreDetailed_abs_gaps_witness:
  "map_sum id dx (horizontalScoreDetailed turnedPose) = Inr (Fin (3 / 10)) \<and>
   map_sum id dz (horizontalScoreDetailed turnedPose) = Inr (Fin (4 / 10)) \<and>
   map_sum id visSym (horizontalScoreDetailed turnedPose) = Inr (Fin (8 / 10)) \<and>
   map_sum id score (horizontalScoreDetailed turnedPose) = Inr (Fin (12 / 25))"
proof -
  define l where "l = landmark (4 / 10) (5 / 10) 0 1"
  define r where "r = landmark (7 / 10) (5 / 10) (4 / 10) (8 / 10)"
  have 1: "map_of turnedPose 11 = Some l" and 2: "map_of turnedPose 12 = Some r"
    by (simp_all add: turnedPose_def l_def r_def)
  have 3: "Fin (3 / 10) < nullish (visibility l) (Fin 1)"
    and 4: "Fin (3 / 10) < nullish (visibility r) (Fin 1)"
    and 5: "isFinite (z l)" and 6: "isFinite (z r)"
    by (simp_all add: l_def r_def landmark_def)
  have len: "hypot (x l - x r) (z l - z r) = Fin (1 / 2)"
    by (simp add: l_def r_def landmark_def minus_number_def hypot_3_4 del: hypot.simps(1))
  then have 7: "Fin (1 / 1000000) \<le> hypot (x l - x r) (z l - z r)"
    by simp
  from horizontalScoreDetailed_abs_gaps [OF 1 2 3 4 5 6 7]
  obtain d :: HorizontalScoreDebug
    where d: "horizontalScoreDetailed turnedPose = Inr d"
      and gx: "dx d = \<bar>x l - x r\<bar>" and gz: "dz d = \<bar>z l - z r\<bar>"
      and vs: "visSym d = Fin 1 - \<bar>nullish (visibility l) (Fin 1) - nullish (visibility r) (Fin 1)\<bar>"
      and sc: "score d = dx d / hypot (x l - x r) (z l - z r) * visSym d"
    by blast
  have gx': "dx d = Fin (3 / 10)" and gz': "dz d = Fin (4 / 10)" and vs': "visSym d = Fin (8 / 10)"
    unfolding gx gz vs by (simp_all add: l_def r_def landmark_def minus_number_def)
  have sc': "score d = Fin (12 / 25)"
    unfolding sc len gx' vs' by simp
  from d gx' gz' vs' sc' show ?thesis by simp
qed

section \<open>Exchanging the two shoulders\<close>

lemma horizontalScore_swap:
  assumes "map_of lm' L_SHOULDER = map_of lm R_SHOULDER"
    and "map_of lm' R_SHOULDER = map_of lm L_SHOULDER"
  shows "horizontalScore lm' = horizontalScore lm"
proof (cases "map_of lm L_SHOULDER")
  case None
  then show ?thesis using assms
    by (simp add: horizontalScore_def horizontalScoreDetailed_def Let_def)
next
  case (Some l)
  note l = this
  show ?thesis
  proof (cases "map_of lm R_SHOULDER")
    case None
    then show ?thesis using assms l
      by (simp add: horizontalScore_def horizontalScoreDetailed_def Let_def)
  next
    case (Some r)
    have a: "\<bar>x r - x l\<bar> = \<bar>x l - x r\<bar>"
      by (rule number_abs_sub_swap)
    have b: "hypot (x r - x l) (z r - z l) = hypot (x l - x r) (z l - z r)"
      by (rule hypot_sub_swap)
    have c: "\<bar>nullish (visibility r) (Fin 1) - nullish (visibility l) (Fin 1)\<bar>
           = \<bar>nullish (visibility l) (Fin 1) - nullish (visibility r) (Fin 1)\<bar>"
      by (rule number_abs_sub_swap)
    show ?thesis using assms l Some
      by (auto simp add: horizontalScore_def horizontalScoreDetailed_def Let_def a b c)
  qed
qed

lemma shoulderTiltScore_swap:
  assumes "map_of lm' L_SHOULDER = map_of lm R_SHOULDER"
    and "map_of lm' R_SHOULDER = map_of lm L_SHOULDER"
  shows "shoulderTiltScore lm' = shoulderTiltScore lm"
proof (cases "map_of lm L_SHOULDER")
  case None
  then show ?thesis using assms
    by (simp add: shoulderTiltScore_def Let_def)
next
  case (Some l)
  note l = this
  show ?thesis
  proof (cases "map_of lm R_SHOULDER")
    case None
    then show ?thesis using assms l
      by (simp add: shoulderTiltScore_def Let_def)
  next
    case (Some r)
    have a: "\<bar>x r - x l\<bar> = \<bar>x l - x r\<bar>"
      by (rule number_abs_sub_swap)
    have b: "\<bar>y r - y l\<bar> = \<bar>y l - y r\<bar>"
      by (rule number_abs_sub_swap)
    show ?thesis using assms l Some
      by (auto simp add: shoulderTiltScore_def Let_def a b)
  qed
qed

text \<open>
  Claim C9.  If a second pose holds at index 11 what the first holds at index 12 and
  at index 12 what the first holds at index 11 (the whole landmark, position and
  visibility, or its absence), then \<open>horizontalScore\<close> and \<open>shoulderTiltScore\<close> return
  the same on both.
\<close>

theorem scores_invariant_under_swap:
  assumes "map_of lm' 11 = map_of lm 12" and "map_of lm' 12 = map_of lm 11"
  shows "horizontalScore lm' = horizontalScore lm \<and>
         shoulderTiltScore lm' = shoulderTiltScore lm"
  using assms horizontalScore_swap [of lm' lm] shoulderTiltScore_swap [of lm' lm]
  by (simp add: L_SHOULDER_def R_SHOULDER_def)

text \<open>The theorem at the turned pose and its mirror image; both score 0.48 and 1.\<close>

theorem scores_invariant_under_swap_witness:
  "map_of turnedPoseSwapped 11 \<noteq> map_of turnedPose 11 \<and>
   horizontalScore turnedPoseSwapped = horizontalScore turnedPose \<and>
   shoulderTiltScore turnedPoseSwapped = shoulderTiltScore turnedPose \<and>
   horizontalScore turnedPose = Inr (Fin (12 / 25))"
proof -
  have 1: "map_of turnedPoseSwapped 11 = map_of turnedPose 12"
    by (simp add: pose_defs)
  have 2: "map_of turnedPoseSwapped 12 = map_of turnedPose 11"
    by (simp add: pose_defs)
  have 3: "map_of turnedPoseSwapped 11 \<noteq> map_of turnedPose 11"
    by (simp add: pose_defs)
  have 4: "horizontalScore turnedPose = Inr (Fin (12 / 25))"
    by (simp add: eval_simps del: hypot.simps(1))
  from scores_invariant_under_swap [OF 1 2] 3 4 show ?thesis by simp
qed

section \<open>Only the two shoulder landmarks are read\<close>

text \<open>
  Claim C10.  Two poses that agree at index 11 and at index 12 (the same landmark in
  both, or missing from both) get equal results from \<open>horizontalScore\<close>,
  \<open>horizontalScoreDetailed\<close>, \<open>shoulderTiltScore\<close>, \<open>shoulderSquareness\<close> and
  \<open>computeAllMetrics\<close>, whatever they hold at any other index.
\<close>

theorem scores_read_only_shoulders:
  assumes "map_of lm 11 = map_of lm' 11" and "map_of lm 12 = map_of lm' 12"
  shows "horizontalScore lm = horizontalScore lm' \<and>
         horizontalScoreDetailed lm = horizontalScoreDetailed lm' \<and>
         shoulderTiltScore lm = shoulderTiltScore lm' \<and>
         shoulderSquareness lm = shoulderSquareness lm' \<and>
         computeAllMetrics lm = computeAllMetrics lm'"
proof -
  have d: "horizontalScoreDetailed lm = horizontalScoreDetailed lm'"
    unfolding horizontalScoreDetailed_def L_SHOULDER_def R_SHOULDER_def assms ..
  have t: "shoulderTiltScore lm = shoulderTiltScore lm'"
    unfolding shoulderTiltScore_def L_SHOULDER_def R_SHOULDER_def assms ..
  have h: "horizontalScore lm = horizontalScore lm'"
    unfolding horizontalScore_def d ..
  have q: "shoulderSquareness lm = shoulderSquareness lm'"
    unfolding shoulderSquareness_def h t ..
  have c: "computeAllMetrics lm = computeAllMetrics lm'"
    unfolding computeAllMetrics_def h t ..
  from d t h q c show ?thesis by simp
qed

text \<open>
  The frontal pose with and without entries at indices 0 and 5: the two poses differ
  at index 0 and score the same.
\<close>

theorem scores_read_only_shoulders_witness:
  "map_of frontalPose 0 \<noteq> map_of frontalPoseWithFace 0 \<and>
   horizontalScore frontalPose = horizontalScore frontalPoseWithFace \<and>
   horizontalScoreDetailed frontalPose = horizontalScoreDetailed frontalPoseWithFace \<and>
   shoulderTiltScore frontalPose = shoulderTiltScore frontalPoseWithFace \<and>
   shoulderSquareness frontalPose = shoulderSquareness frontalPoseWithFace \<and>
   computeAllMetrics frontalPose = computeAllMetrics frontalPoseWithFace"
proof -
  have 1: "map_of frontalPose 11 = map_of frontalPoseWithFace 11"
    by (simp add: pose_defs)
  have 2: "map_of frontalPose 12 = map_of frontalPoseWithFace 12"
    by (simp add: pose_defs)
  have 3: "map_of frontalPose 0 \<noteq> map_of frontalPoseWithFace 0"
    by (simp add: pose_defs)
  from scores_read_only_shoulders [OF 1 2] 3 show ?thesis by simp
qed

section \<open>The landmark smoother\<close>

lemma ema_weights:
  "SMOOTH_ALPHA * p + (Fin 1 - SMOOTH_ALPHA) * s = Fin (2 / 10) * p + Fin (8 / 10) * s"
  by (simp add: SMOOTH_ALPHA_def minus_number_def)

lemma ema_same: "0 < a \<Longrightarrow> 0 < b \<Longrightarrow> a + b = 1 \<Longrightarrow> Fin a * p + Fin b * p = p"
proof (cases p)
  case (Fin r)
  assume "a + b = 1"
  then have "a * r + b * r = r" by (simp add: distrib_right [symmetric])
  then show ?thesis using Fin by simp
qed simp_all

lemma smoothLandmark_fields:
  "x (smoothLandmark p s) = Fin (2 / 10) * x p + Fin (8 / 10) * x s"
  "y (smoothLandmark p s) = Fin (2 / 10) * y p + Fin (8 / 10) * y s"
  "z (smoothLandmark p s) = Fin (2 / 10) * z p + Fin (8 / 10) * z s"
  "visibility (smoothLandmark p s) = visibility s"
  by (simp_all add: smoothLandmark_def Let_def ema_weights)

lemma smoothLandmark_same: "smoothLandmark p p = p"
  by (simp add: smoothLandmark_def Let_def ema_weights ema_same)

lemma smoothEntry_other:
  "idx \<noteq> fst e \<Longrightarrow> map_of (smoothEntry e cur) idx = map_of cur idx"
  by (cases e) (simp add: smoothEntry_def Let_def update_conv')

lemma smoothEntry_same:
  "map_of (smoothEntry (idx, p) cur) idx = Some (smoothLandmark p (nullish (map_of cur idx) p))"
  by (simp add: smoothEntry_def Let_def update_conv')

lemma smoothEntry_keeps_keys:
  "map_of cur idx = Some s \<Longrightarrow> \<exists>s'. map_of (smoothEntry e cur) idx = Some s'"
  by (cases e) (simp add: smoothEntry_def Let_def update_conv')

lemma fold_smoothEntry_absent:
  "idx \<notin> fst ` set pose \<Longrightarrow> map_of (fold smoothEntry pose st) idx = map_of st idx"
  by (induction pose arbitrary: st) (auto simp add: smoothEntry_other)

lemma fold_smoothEntry_present:
  "distinct (map fst pose) \<Longrightarrow> (idx, p) \<in> set pose \<Longrightarrow>
   map_of (fold smoothEntry pose st) idx = Some (smoothLandmark p (nullish (map_of st idx) p))"
proof (induction pose arbitrary: st)
  case Nil
  then show ?case by simp
next
  case (Cons e pose)
  show ?case
  proof (cases "e = (idx, p)")
    case True
    with Cons.prems have "idx \<notin> fst ` set pose" by auto
    then have "map_of (fold smoothEntry pose (smoothEntry e st)) idx
        = map_of (smoothEntry e st) idx"
      by (rule fold_smoothEntry_absent)
    then show ?thesis using True by (simp add: smoothEntry_same)
  next
    case False
    with Cons.prems have in_rest: "(idx, p) \<in> set pose" and d: "distinct (map fst pose)"
      by auto
    from in_rest have "fst (idx, p) \<in> fst ` set pose" by (rule imageI)
    then have "idx \<in> fst ` set pose" by (simp only: fst_conv)
    moreover from Cons.prems(1) have "fst e \<notin> fst ` set pose" by simp
    ultimately have "idx \<noteq> fst e" by blast
    then have "map_of (smoothEntry e st) idx = map_of st idx"
      by (rule smoothEntry_other)
    with Cons.IH [OF d in_rest, of "smoothEntry e st"] show ?thesis by simp
  qed
qed

lemma fold_smoothEntry_keeps_keys:
  "map_of st idx = Some s \<Longrightarrow> \<exists>s'. map_of (fold smoothEntry pose st) idx = Some s'"
proof (induction pose arbitrary: st s)
  case Nil
  then show ?case by simp
next
  case (Cons e pose)
  from Cons.prems obtain s1 where "map_of (smoothEntry e st) idx = Some s1"
    using smoothEntry_keeps_keys by blast
  then show ?case using Cons.IH by simp
qed

lemma smoothUpdate_absent:
  "map_of pose idx = None \<Longrightarrow> map_of (smoothUpdate (Some st) pose) idx = map_of st idx"
  by (simp add: smoothUpdate_def fold_smoothEntry_absent map_of_eq_None_iff)

lemma feedFrames_absent:
  assumes "\<forall>pose. Some pose \<in> set frames \<longrightarrow> map_of pose idx = None"
  shows "map_option (\<lambda>st. map_of st idx) (feedFrames (Some st0) frames) = Some (map_of st0 idx)"
  using assms
proof (induction frames arbitrary: st0)
  case Nil
  then show ?case by simp
next
  case (Cons f frames)
  show ?case
  proof (cases f)
    case None
    with Cons show ?thesis by simp
  next
    case (Some pose)
    with Cons.prems have "map_of pose idx = None" by simp
    then have "map_of (smoothUpdate (Some st0) pose) idx = map_of st0 idx"
      by (rule smoothUpdate_absent)
    with Cons.IH [of "smoothUpdate (Some st0) pose"] Cons.prems Some show ?thesis by simp
  qed
qed

text \<open>
  Claim C3 says that on every update after the first the output visibility of an
  index present in the raw frame is the raw frame's visibility.  After \<open>frameA\<close>
  (left shoulder at visibility 1) and then \<open>frameB\<close> (left shoulder at visibility
  0.1), the smoothed left shoulder still has visibility 1.
\<close>

theorem smoother_visibility_not_raw:
  "map_option visibility (map_of (smoothUpdate (Some (smoothUpdate None frameA)) frameB) 11)
     = Some (Some (Fin 1)) \<and>
   map_option visibility (map_of frameB 11) = Some (Some (Fin (1 / 10))) \<and>
   map_option visibility (map_of (smoothUpdate (Some (smoothUpdate None frameA)) frameB) 11)
     \<noteq> map_option visibility (map_of frameB 11)"
  by (simp add: smoothUpdate_def smoothEntry_def smoothLandmark_def frameA_def frameB_def
      landmark_def Let_def)

text \<open>
  Claim C3, amended.  On every update after the first one following a reset, for
  every index present in the raw frame: if the index is already in the smoothed
  state, the output position is \<open>0.2 \<cdot> raw + 0.8 \<cdot> previous\<close> for each of \<open>x\<close>, \<open>y\<close>, \<open>z\<close>
  and the output visibility is the visibility of the previous smoothed entry (the
  raw frame's visibility is not copied); if the index is not yet in the state, the
  output for it is the raw landmark.
\<close>

theorem smoother_ema_keeps_old_visibility:
  assumes "distinct (map fst pose)" and "map_of pose idx = Some p"
  shows "\<exists>out. map_of (smoothUpdate (Some st) pose) idx = Some out \<and>
           (\<forall>s. map_of st idx = Some s \<longrightarrow>
              x out = Fin (2 / 10) * x p + Fin (8 / 10) * x s \<and>
              y out = Fin (2 / 10) * y p + Fin (8 / 10) * y s \<and>
              z out = Fin (2 / 10) * z p + Fin (8 / 10) * z s \<and>
              visibility out = visibility s) \<and>
           (map_of st idx = None \<longrightarrow> out = p)"
proof -
  from assms have "(idx, p) \<in> set pose" by simp
  with assms(1) have "map_of (fold smoothEntry pose st) idx
      = Some (smoothLandmark p (nullish (map_of st idx) p))"
    by (rule fold_smoothEntry_present)
  then show ?thesis
    by (auto simp add: smoothUpdate_def smoothLandmark_fields smoothLandmark_same)
qed

text \<open>
  The amended statement at \<open>frameA\<close> followed by \<open>frameB\<close>: the left shoulder moves
  from 0 to 0.2 in each coordinate and keeps visibility 1.
\<close>

theorem smoother_ema_keeps_old_visibility_witness:
  "map_of (smoothUpdate (Some frameA) frameB) 11
     = Some \<lparr> x = Fin (2 / 10), y = Fin (2 / 10), z = Fin (2 / 10), visibility = Some (Fin 1) \<rparr>"
proof -
  have 1: "distinct (map fst frameB)"
    by (simp add: frameB_def)
  have 2: "map_of frameB 11 = Some (landmark 1 1 1 (1 / 10))"
    by (simp add: frameB_def)
  have 3: "map_of frameA 11 = Some (landmark 0 0 0 1)"
    by (simp add: frameA_def)
  from smoother_ema_keeps_old_visibility [OF 1 2, of frameA] 3 show ?thesis
    by (auto simp add: landmark_def)
qed

text \<open>
  Claim C6.  For every smoothed state and raw frame, an index absent from the raw
  frame has the same entry in the new state, which is also the output, as in the
  old one; every index of the old state is still in the output; and after a reset,
  an index that no frame after the first contains is reported, after any number of
  further frames, exactly as the first frame had it.
\<close>

theorem smoother_keeps_absent_landmarks:
  "(map_of pose idx = None \<longrightarrow> map_of (smoothUpdate (Some st) pose) idx = map_of st idx) \<and>
   (map_of st idx \<noteq> None \<longrightarrow> map_of (smoothUpdate (Some st) pose) idx \<noteq> None) \<and>
   ((\<forall>later. Some later \<in> set frames \<longrightarrow> map_of later idx = None) \<longrightarrow>
      map_option (\<lambda>s. map_of s idx) (feedFrames None (Some first # frames))
        = Some (map_of first idx))"
proof (intro conjI impI)
  assume "map_of pose idx = None"
  then show "map_of (smoothUpdate (Some st) pose) idx = map_of st idx"
    by (rule smoothUpdate_absent)
next
  assume "map_of st idx \<noteq> None"
  then obtain s where "map_of st idx = Some s" by blast
  then obtain s' where "map_of (fold smoothEntry pose st) idx = Some s'"
    using fold_smoothEntry_keeps_keys by blast
  then show "map_of (smoothUpdate (Some st) pose) idx \<noteq> None"
    by (simp add: smoothUpdate_def)
next
  assume "\<forall>later. Some later \<in> set frames \<longrightarrow> map_of later idx = None"
  then have "map_option (\<lambda>s. map_of s idx) (feedFrames (Some first) frames)
      = Some (map_of first idx)"
    by (rule feedFrames_absent)
  then show "map_option (\<lambda>s. map_of s idx) (feedFrames None (Some first # frames))
      = Some (map_of first idx)"
    by (simp add: smoothUpdate_def)
qed

text \<open>
  The theorem at \<open>frameA\<close> followed by a frame with the right shoulder only, a frame
  without detection and again a frame with the right shoulder only: the left
  shoulder is reported as in \<open>frameA\<close>.
\<close>

theorem smoother_keeps_absent_landmarks_witness:
  "map_of (smoothUpdate (Some frameA) frameC) 11 = Some (landmark 0 0 0 1) \<and>
   map_option (\<lambda>s. map_of s 11) (feedFrames None [Some frameA, Some frameC, None, Some frameC])
     = Some (Some (landmark 0 0 0 1))"
proof -
  have 1: "map_of frameC 11 = None"
    by (simp add: frameC_def)
  have 2: "map_of frameA 11 = Some (landmark 0 0 0 1)"
    by (simp add: frameA_def)
  have 3: "\<forall>later. Some later \<in> set [Some frameC, None, Some frameC] \<longrightarrow> map_of later 11 = None"
    using 1 by simp
  from smoother_keeps_absent_landmarks [of frameC 11 frameA "[Some frameC, None, Some frameC]" frameA]
    1 2 3
  show ?thesis by simp
qed

section \<open>The score buffer\<close>

lemma observe_same:
  "map_of (observe (k, val) b) k =
     Some (let a = nullish (map_of b k) [] @ [val] in if BUFFER_SIZE < length a then tl a else a)"
  by (simp add: observe_def Let_def update_conv')

lemma observe_other:
  "k \<noteq> fst e \<Longrightarrow> map_of (observe e b) k = map_of b k"
  by (cases e) (simp add: observe_def Let_def update_conv')

lemma window_step:
  assumes "arr = drop (length vs - 30) vs"
  shows "(let a = arr @ [val] in if 30 < length a then tl a else a)
           = drop (length (vs @ [val]) - 30) (vs @ [val])"
proof (cases "30 \<le> length vs")
  case True
  then have len: "length arr = 30" using assms by simp
  then have ne: "arr \<noteq> []" by auto
  have "tl (arr @ [val]) = tl arr @ [val]" using ne by simp
  also have "tl arr = drop (Suc (length vs - 30)) vs"
    using assms by (simp add: drop_Suc tl_drop)
  finally have "tl (arr @ [val]) = drop (Suc (length vs - 30)) vs @ [val]" .
  moreover have "length (vs @ [val]) - 30 = Suc (length vs - 30)"
    using True by simp
  then have "drop (length (vs @ [val]) - 30) (vs @ [val]) = drop (Suc (length vs - 30)) vs @ [val]"
    using True by (simp only: drop_append) simp
  ultimately show ?thesis using len by (simp add: Let_def)
next
  case False
  then show ?thesis using assms by (simp add: Let_def)
qed

lemma fold_observe_window:
  assumes "map_of b k = None"
  shows "map_of (fold observe obs b) k =
     (let vs = map snd (filter (\<lambda>e. fst e = k) obs)
      in if vs = [] then None else Some (drop (length vs - 30) vs))"
proof (induction obs rule: rev_induct)
  case Nil
  then show ?case using assms by simp
next
  case (snoc e obs)
  define vs where "vs = map snd (filter (\<lambda>e. fst e = k) obs)"
  have IH: "map_of (fold observe obs b) k
      = (if vs = [] then None else Some (drop (length vs - 30) vs))"
    using snoc by (simp add: vs_def Let_def)
  show ?case
  proof (cases "fst e = k")
    case False
    then have "map_of (observe e (fold observe obs b)) k = map_of (fold observe obs b) k"
      by (intro observe_other) simp
    with False IH show ?thesis by (simp add: vs_def Let_def)
  next
    case True
    then obtain val where e: "e = (k, val)" by (cases e) simp
    have arr: "nullish (map_of (fold observe obs b) k) [] = drop (length vs - 30) vs"
      using IH by simp
    have "map_of (observe e (fold observe obs b)) k
        = Some (drop (length (vs @ [val]) - 30) (vs @ [val]))"
      unfolding e observe_same BUFFER_SIZE_def using window_step [OF arr] by simp
    then show ?thesis using e by (simp add: vs_def Let_def)
  qed
qed

lemma foldl_plus_Fin: "foldl (+) (Fin a) (map Fin rs) = Fin (a + sum_list rs)"
  by (induction rs arbitrary: a) (simp_all add: add.assoc)

lemma mean_Fin: "rs \<noteq> [] \<Longrightarrow> mean (map Fin rs) = Fin (sum_list rs / real (length rs))"
  by (simp add: mean_def foldl_plus_Fin)

lemma avgScores_lookup: "map_of (avgScores b) k = map_option mean (map_of b k)"
  by (simp add: avgScores_def map_of_map)

lemma alternating_scores:
  "map snd (filter (\<lambda>e. fst e = ''horizontalScore'')
     (concat (map (\<lambda>val. [(''horizontalScore'', val), (''shoulderTiltScore'', c)]) vs))) = vs"
  by (induction vs) simp_all

lemma fortySamples_reals: "fortySamples = map Fin (map real [1..<41])"
  by (simp add: fortySamples_def)

lemma sum_11_to_40: "sum_list (drop 10 (map real [1..<41])) / 30 = 51 / 2"
  by code_simp

lemma sum_1_to_30: "sum_list (take 30 (map real [1..<41])) / 30 = 31 / 2"
  by code_simp

text \<open>
  Claim C4.  For every metric name \<open>k\<close> not yet in the buffer: after a run of
  observations that contains 40 values for \<open>k\<close> (and any observations for other
  names in between), the array of \<open>k\<close> is the last 30 of those values, that is
  samples 11 to 40 in order, and the average reported for \<open>k\<close> is the mean of that
  array, which for finite samples is their sum divided by 30.  Each single
  observation appends the value and drops the oldest one only when the length has
  then exceeded 30.
\<close>

theorem buffer_holds_last_30:
  assumes "map_of buffer k = None"
    and "map snd (filter (\<lambda>e. fst e = k) obs) = vs"
    and "length vs = 40"
  shows "map_of (fold observe obs buffer) k = Some (drop 10 vs) \<and>
         length (drop 10 vs) = 30 \<and>
         (\<forall>i<30. drop 10 vs ! i = vs ! (10 + i)) \<and>
         map_of (avgScores (fold observe obs buffer)) k = Some (mean (drop 10 vs)) \<and>
         (\<forall>rs. vs = map Fin rs \<longrightarrow> mean (drop 10 vs) = Fin (sum_list (drop 10 rs) / 30)) \<and>
         (\<forall>b val. map_of (observe (k, val) b) k =
            Some (let a = nullish (map_of b k) [] @ [val] in if 30 < length a then tl a else a))"
proof -
  have ne: "vs \<noteq> []" using assms(3) by auto
  have 1: "map_of (fold observe obs buffer) k = Some (drop 10 vs)"
    using fold_observe_window [OF assms(1), of obs] assms(2,3) ne by (simp add: Let_def)
  have 2: "length (drop 10 vs) = 30" using assms(3) by simp
  have 3: "\<forall>i<30. drop 10 vs ! i = vs ! (10 + i)" using assms(3) by simp
  have 4: "map_of (avgScores (fold observe obs buffer)) k = Some (mean (drop 10 vs))"
    by (simp add: avgScores_lookup 1)
  have 5: "mean (drop 10 vs) = Fin (sum_list (drop 10 rs) / 30)" if "vs = map Fin rs" for rs
  proof -
    from that assms(3) have l: "length rs = 40" by auto
    then have "drop 10 rs \<noteq> []" by auto
    then have "mean (map Fin (drop 10 rs))
        = Fin (sum_list (drop 10 rs) / real (length (drop 10 rs)))"
      by (rule mean_Fin)
    then show ?thesis using that l by (simp add: drop_map)
  qed
  have 6: "\<forall>b val. map_of (observe (k, val) b) k =
            Some (let a = nullish (map_of b k) [] @ [val] in if 30 < length a then tl a else a)"
    by (simp add: observe_same BUFFER_SIZE_def)
  from 1 2 3 4 5 6 show ?thesis by blast
qed

text \<open>
  The theorem at forty frames with yaw scores \<open>1, \<dots>, 40\<close> into an empty buffer:
  the array holds the scores \<open>11, \<dots>, 40\<close> and the reported average is 25.5, the
  mean of those, whereas the mean of the scores \<open>1, \<dots>, 30\<close> is 15.5.
\<close>

theorem buffer_holds_last_30_witness:
  "map_of (fold observe fortyFrames []) ''horizontalScore'' = Some (drop 10 fortySamples) \<and>
   length (drop 10 fortySamples) = 30 \<and>
   map_of (avgScores (fold observe fortyFrames [])) ''horizontalScore'' = Some (Fin (51 / 2)) \<and>
   mean (take 30 fortySamples) = Fin (31 / 2)"
proof -
  have 1: "map_of ([] :: Buffer) ''horizontalScore'' = None"
    by simp
  have 2: "map snd (filter (\<lambda>e. fst e = ''horizontalScore'') fortyFrames) = fortySamples"
    unfolding fortyFrames_def by (rule alternating_scores)
  have 3: "length fortySamples = 40"
    by (simp add: fortySamples_def)
  have 4: "mean (take 30 fortySamples) = Fin (31 / 2)"
    using mean_Fin [of "take 30 (map real [1..<41])"] sum_1_to_30
    by (simp add: fortySamples_reals take_map)
  note main = buffer_holds_last_30 [OF 1 2 3]
  from main fortySamples_reals
  have "mean (drop 10 fortySamples) = Fin (sum_list (drop 10 (map real [1..<41])) / 30)"
    by blast
  then have 5: "mean (drop 10 fortySamples) = Fin (51 / 2)"
    by (simp only: sum_11_to_40)
  from main 4 5 show ?thesis by simp
qed

end
